theory Spec2Isabelle
  imports Main "HOL-Library.Word" "HOL-Library.Sublist"
begin

section \<open>The WHIP relay server: a shallow embedding\<close>

text \<open>
  The repository holds two variants of one control server. \<^verbatim>\<open>server.go\<close> is the
  control surface alone (\<^verbatim>\<open>/start\<close>, \<^verbatim>\<open>/stop\<close>, \<^verbatim>\<open>/shutdown\<close>) over one
  global flag \<^verbatim>\<open>running\<close>. The second file (\<^verbatim>\<open>part_000\<close>) is the relay proper:
  its \<^verbatim>\<open>startHandler\<close> builds a peer connection and two tracks, starts two
  \<^verbatim>\<open>listenRTP\<close> goroutines and performs the WHIP offer/answer exchange; it has no
  \<^verbatim>\<open>/stop\<close>.

  Everything outside the repository (the JSON decoder, the WebRTC stack, the HTTP client,
  the UDP socket, the RTP decoder) is an explicit parameter: a function or a record that
  says what each external call returns. The handlers are functions from the globals to
  the response, the list of external calls made, in order, and the new globals.

  The code has no error type: a lifecycle conflict (AlreadyRunning, NotRunning) is the
  response 409, an undecodable body (ConfigInvalid) the response 400, and a failed
  construction or signaling step the response 500 with its diagnostic text.
\<close>

subsection \<open>HTTP responses\<close>

record response =
  http_status :: int
  http_body :: string

text \<open>\<^verbatim>\<open>http.Error(w, msg, code)\<close> writes the message followed by a newline.\<close>

definition http_Error :: "string \<Rightarrow> int \<Rightarrow> response" where
  "http_Error msg c = \<lparr>http_status = c, http_body = msg @ [CHR 0x0A]\<rparr>"

text \<open>\<^verbatim>\<open>w.Write(b)\<close> with no status set before it answers 200.\<close>

definition http_Write :: "string \<Rightarrow> response" where
  "http_Write b = \<lparr>http_status = 200, http_body = b\<rparr>"

subsection \<open>Formatting: the verb \<^verbatim>\<open>%d\<close>\<close>

definition digit_char :: "nat \<Rightarrow> char" where
  "digit_char n = ''0123456789'' ! n"

fun show_nat :: "nat \<Rightarrow> string" where
  "show_nat n =
     (if n < 10 then [digit_char n] else show_nat (n div 10) @ [digit_char (n mod 10)])"

definition show_int :: "int \<Rightarrow> string" where
  "show_int i = (if i < 0 then CHR ''-'' # show_nat (nat (- i)) else show_nat (nat i))"

text \<open>
  Reading a decimal numeral back, to say what \<^verbatim>\<open>%d\<close> prints: the digits of the
  number, most significant first, with no leading zero, after a minus sign for a negative
  number.
\<close>

definition is_digit :: "char \<Rightarrow> bool" where
  "is_digit ch \<longleftrightarrow> ch \<in> set ''0123456789''"

definition digit_value :: "char \<Rightarrow> nat" where
  "digit_value ch = of_char ch - 48"

definition read_nat :: "string \<Rightarrow> nat" where
  "read_nat ds = foldl (\<lambda>a ch. 10 * a + digit_value ch) 0 ds"

definition read_int :: "string \<Rightarrow> int" where
  "read_int s = (case s of ch # ds \<Rightarrow> if ch = CHR ''-'' then - int (read_nat ds)
                                    else int (read_nat s)
                 | [] \<Rightarrow> 0)"

definition decimal_numeral :: "string \<Rightarrow> bool" where
  "decimal_numeral ds \<longleftrightarrow>
     ds \<noteq> [] \<and> list_all is_digit ds \<and> (ds = ''0'' \<or> hd ds \<noteq> CHR ''0'')"

subsection \<open>Requests, codecs, tracks, the peer connection\<close>

record StartRequest =
  IngestURL :: string
  VideoPort :: int
  AudioPort :: int

datatype media = Audio | Video

record codec =
  MimeType :: string
  ClockRate :: nat
  Channels :: nat
  PayloadType :: nat

definition MimeTypeOpus :: string where "MimeTypeOpus = ''audio/opus''"
definition MimeTypeVP8 :: string where "MimeTypeVP8 = ''video/VP8''"

definition audio_codec :: codec where
  "audio_codec = \<lparr>MimeType = MimeTypeOpus, ClockRate = 48000, Channels = 2, PayloadType = 111\<rparr>"

definition video_codec :: codec where
  "video_codec = \<lparr>MimeType = MimeTypeVP8, ClockRate = 90000, Channels = 0, PayloadType = 102\<rparr>"

record track =
  track_mime :: string
  track_id :: string
  track_stream :: string

definition audioTrack :: track where
  "audioTrack = \<lparr>track_mime = MimeTypeOpus, track_id = ''audio'', track_stream = ''pion-audio''\<rparr>"

definition videoTrack :: track where
  "videoTrack = \<lparr>track_mime = MimeTypeVP8, track_id = ''video'', track_stream = ''pion-video''\<rparr>"

record peerconn =
  pc_tracks :: "track list"
  local_description :: "string option"
  remote_description :: "string option"

definition new_peerconn :: peerconn where
  "new_peerconn = \<lparr>pc_tracks = [], local_description = None, remote_description = None\<rparr>"

subsection \<open>The globals\<close>

text \<open>
  \<^verbatim>\<open>server.go\<close> has \<^verbatim>\<open>mu\<close> and \<^verbatim>\<open>running\<close>; the relay adds \<^verbatim>\<open>pc\<close>. The
  handlers below are the bodies that run between \<^verbatim>\<open>mu.Lock()\<close> and the deferred
  \<^verbatim>\<open>mu.Unlock()\<close>; the lock itself is in the interleaving model further down.
\<close>

record lifecycle =
  running :: bool

record relay = lifecycle +
  pc :: "peerconn option"

subsection \<open>External calls and what they return\<close>

text \<open>The external calls a handler makes, in the order it makes them.\<close>

datatype call =
    Log string
  | RegisterCodec codec media
  | NewPeerConnection
  | NewTrack media
  | AddTrack media
  | Go_listenRTP int media
  | CreateOffer
  | SetLocalDescription string
  | NewRequest string string
  | HttpPost string string
  | ReadBody
  | CloseBody
  | SetRemoteDescription string
  | Go_shutdown

text \<open>
  What the ingest endpoint answered: the status code, the bytes \<^verbatim>\<open>io.ReadAll\<close> returns
  for the body, and whether \<^verbatim>\<open>io.ReadAll\<close> returns them without an error.
\<close>

record whip_response =
  StatusCode :: int
  body_bytes :: string
  body_read_ok :: bool

text \<open>
  The result of every external call of \<^verbatim>\<open>startHandler\<close> and \<^verbatim>\<open>listenRTP\<close>:
  \<open>None\<close> or \<open>False\<close> is the call's error return.
\<close>

record env =
  register_codec_ok :: "media \<Rightarrow> bool"
  new_pc_ok :: bool
  new_track_ok :: "media \<Rightarrow> bool"
  create_offer :: "string option"
  set_local_ok :: "string \<Rightarrow> bool"
  new_request_ok :: "string \<Rightarrow> bool"
  http_do :: "string \<Rightarrow> string \<Rightarrow> whip_response option"
  set_remote_ok :: "string \<Rightarrow> bool"
  listen_udp_ok :: "int \<Rightarrow> bool"

subsection \<open>\<^verbatim>\<open>startHandler\<close> of the relay\<close>

definition starting_relay :: "StartRequest \<Rightarrow> string" where
  "starting_relay req =
     ''Starting relay: Ingest='' @ IngestURL req @ '' video='' @ show_int (VideoPort req)
       @ '' audio='' @ show_int (AudioPort req)"

text \<open>The calls up to and including the two \<^verbatim>\<open>go listenRTP\<close> statements.\<close>

definition construction_calls :: "StartRequest \<Rightarrow> call list" where
  "construction_calls req =
     [RegisterCodec audio_codec Audio, RegisterCodec video_codec Video, NewPeerConnection,
      NewTrack Audio, AddTrack Audio, NewTrack Video, AddTrack Video,
      Go_listenRTP (AudioPort req) Audio, Go_listenRTP (VideoPort req) Video]"

definition startHandler ::
  "(string \<Rightarrow> StartRequest option) \<Rightarrow> env \<Rightarrow> string \<Rightarrow> relay \<Rightarrow> response \<times> call list \<times> relay"
where
  "startHandler decode e reqbody s =
    (if running s then (http_Error ''already running'' 409, [], s)
     else case decode reqbody of
       None \<Rightarrow> (http_Error ''bad request'' 400, [], s)
     | Some req \<Rightarrow>
       if \<not> register_codec_ok e Audio then
         (http_Error ''failed to register audio codec'' 500, take 1 (construction_calls req), s)
       else if \<not> register_codec_ok e Video then
         (http_Error ''failed to register video codec'' 500, take 2 (construction_calls req), s)
       else if \<not> new_pc_ok e then
         (http_Error ''failed to create pc'' 500, take 3 (construction_calls req),
          s\<lparr>pc := None\<rparr>)
       else if \<not> new_track_ok e Audio then
         (http_Error ''failed audio track'' 500, take 4 (construction_calls req),
          s\<lparr>pc := Some new_peerconn\<rparr>)
       else if \<not> new_track_ok e Video then
         (http_Error ''failed video track'' 500, take 6 (construction_calls req),
          s\<lparr>pc := Some (new_peerconn\<lparr>pc_tracks := [audioTrack]\<rparr>)\<rparr>)
       else
         let p = new_peerconn\<lparr>pc_tracks := [audioTrack, videoTrack]\<rparr>;
             cs = construction_calls req @ [CreateOffer]
         in case create_offer e of
           None \<Rightarrow> (http_Error ''failed to create offer'' 500, cs, s\<lparr>pc := Some p\<rparr>)
         | Some sdp \<Rightarrow>
           if \<not> set_local_ok e sdp then
             (http_Error ''failed to set local desc'' 500, cs @ [SetLocalDescription sdp],
              s\<lparr>pc := Some p\<rparr>)
           else
             let p = p\<lparr>local_description := Some sdp\<rparr>;
                 cs = cs @ [SetLocalDescription sdp, NewRequest (IngestURL req) sdp]
             in if \<not> new_request_ok e (IngestURL req) then
               (http_Error ''failed to build whip request'' 500, cs, s\<lparr>pc := Some p\<rparr>)
             else
               let cs = cs @ [HttpPost (IngestURL req) sdp]
               in case http_do e (IngestURL req) sdp of
                 None \<Rightarrow> (http_Error ''whip request failed'' 500, cs, s\<lparr>pc := Some p\<rparr>)
               | Some r \<Rightarrow>
                 if StatusCode r \<noteq> 201 \<and> StatusCode r \<noteq> 200 then
                   (http_Error (''whip error '' @ show_int (StatusCode r) @ '': '' @ body_bytes r) 500,
                    cs @ [ReadBody, CloseBody], s\<lparr>pc := Some p\<rparr>)
                 else if \<not> body_read_ok r then
                   (http_Error ''failed to read whip answer'' 500,
                    cs @ [ReadBody, CloseBody], s\<lparr>pc := Some p\<rparr>)
                 else if \<not> set_remote_ok e (body_bytes r) then
                   (http_Error ''failed to set remote desc'' 500,
                    cs @ [ReadBody, SetRemoteDescription (body_bytes r), CloseBody],
                    s\<lparr>pc := Some p\<rparr>)
                 else
                   (http_Write ''Relay started'',
                    cs @ [ReadBody, SetRemoteDescription (body_bytes r),
                          Log (starting_relay req), CloseBody],
                    s\<lparr>pc := Some (p\<lparr>remote_description := Some (body_bytes r)\<rparr>),
                      running := True\<rparr>))"

subsection \<open>The handlers of \<^verbatim>\<open>server.go\<close>\<close>

definition startHandler_srv ::
  "(string \<Rightarrow> StartRequest option) \<Rightarrow> string \<Rightarrow> 'a lifecycle_scheme
     \<Rightarrow> response \<times> call list \<times> 'a lifecycle_scheme"
where
  "startHandler_srv decode reqbody s =
    (if running s then (http_Error ''already running'' 409, [], s)
     else case decode reqbody of
       None \<Rightarrow> (http_Error ''bad request'' 400, [], s)
     | Some req \<Rightarrow> (http_Write ''asdsa'', [Log (starting_relay req)], s\<lparr>running := True\<rparr>))"

definition stopHandler ::
  "'a lifecycle_scheme \<Rightarrow> response \<times> call list \<times> 'a lifecycle_scheme"
where
  "stopHandler s =
    (if \<not> running s then (http_Error ''not running'' 409, [], s)
     else (http_Write ''Relay stopped'', [Log ''Stopping relay''], s\<lparr>running := False\<rparr>))"

subsection \<open>Shutdown (the same in both files)\<close>

definition shutdown_ack :: response where
  "shutdown_ack = http_Write ''Relay server shutting down''"



subsection \<open>RTP packets and \<^verbatim>\<open>listenRTP\<close>\<close>

type_synonym byte = "8 word"

text \<open>The fields of \<^verbatim>\<open>rtp.Packet\<close> the relay's contract speaks about.\<close>

record packet =
  Marker :: bool
  HeaderPayloadType :: "8 word"
  SequenceNumber :: "16 word"
  Timestamp :: "32 word"
  SSRC :: "32 word"
  Payload :: "byte list"

text \<open>
  One iteration's input: \<^verbatim>\<open>conn.ReadFrom\<close> fails, or a datagram arrives. The flag of
  a datagram is what \<^verbatim>\<open>track.WriteRTP\<close> returns if the loop reaches it for this
  datagram (\<open>True\<close>: no error).
\<close>

datatype recv = ReadError | Datagram "byte list" bool

datatype track_write = WriteRTP track packet

datatype stop_reason = BindFailed | ReadFailed | WriteFailed

text \<open>
  \<open>Receiving\<close>: the socket is bound and the goroutine is blocked in \<^verbatim>\<open>ReadFrom\<close>.
  \<open>Stopped\<close>: the function has returned (after the deferred \<^verbatim>\<open>conn.Close()\<close>
  when the socket had been bound); the reason names the error it logged before
  returning.
\<close>

datatype listener = Receiving | Stopped stop_reason

text \<open>
  The \<^verbatim>\<open>for\<close> loop of \<^verbatim>\<open>listenRTP\<close>, over the inputs of its iterations. The buffer
  has 1500 bytes, so \<^verbatim>\<open>buf[:n]\<close> is the first 1500 bytes of the datagram. The result
  is the list of \<^verbatim>\<open>WriteRTP\<close> calls and where the goroutine stands once the inputs
  are used up.
\<close>

fun receive_loop ::
  "(byte list \<Rightarrow> packet option) \<Rightarrow> track \<Rightarrow> recv list \<Rightarrow> track_write list \<times> listener"
where
  "receive_loop unmarshal tr [] = ([], Receiving)"
| "receive_loop unmarshal tr (ReadError # evs) = ([], Stopped ReadFailed)"
| "receive_loop unmarshal tr (Datagram d write_ok # evs) =
     (case unmarshal (take 1500 d) of
        None \<Rightarrow> receive_loop unmarshal tr evs
      | Some pkt \<Rightarrow>
          if write_ok then
            (WriteRTP tr pkt # fst (receive_loop unmarshal tr evs),
             snd (receive_loop unmarshal tr evs))
          else ([WriteRTP tr pkt], Stopped WriteFailed))"

definition listenRTP ::
  "(byte list \<Rightarrow> packet option) \<Rightarrow> env \<Rightarrow> int \<Rightarrow> track \<Rightarrow> recv list
     \<Rightarrow> track_write list \<times> listener"
where
  "listenRTP unmarshal e port tr evs =
     (if \<not> listen_udp_ok e port then ([], Stopped BindFailed)
      else receive_loop unmarshal tr evs)"

subsection \<open>Sample inputs\<close>

text \<open>
  Concrete values for the parameters, used where a theorem is exercised on an input.
  \<open>sample_unmarshal\<close> reads the fixed 12-byte header of RFC 3550 (version 2, no
  padding, extension or CSRC entries) and refuses everything else.
\<close>

definition be16 :: "byte \<Rightarrow> byte \<Rightarrow> 16 word" where
  "be16 a b = or (push_bit 8 (ucast a)) (ucast b)"

definition be32 :: "byte \<Rightarrow> byte \<Rightarrow> byte \<Rightarrow> byte \<Rightarrow> 32 word" where
  "be32 a b c d =
     or (push_bit 24 (ucast a)) (or (push_bit 16 (ucast b)) (or (push_bit 8 (ucast c)) (ucast d)))"

definition sample_unmarshal :: "byte list \<Rightarrow> packet option" where
  "sample_unmarshal bs =
     (if length bs < 12 \<or> bs ! 0 \<noteq> 0x80 then None
      else Some \<lparr>Marker = bit (bs ! 1) 7,
                 HeaderPayloadType = and (bs ! 1) 0x7F,
                 SequenceNumber = be16 (bs ! 2) (bs ! 3),
                 Timestamp = be32 (bs ! 4) (bs ! 5) (bs ! 6) (bs ! 7),
                 SSRC = be32 (bs ! 8) (bs ! 9) (bs ! 10) (bs ! 11),
                 Payload = drop 12 bs\<rparr>)"

definition sample_datagram :: "byte list" where
  "sample_datagram = [0x80, 0x6F, 0x12, 0x34, 0, 0, 0x03, 0xE8, 0xDE, 0xAD, 0xBE, 0xEF, 1, 2, 3]"

definition sample_packet :: packet where
  "sample_packet = \<lparr>Marker = False, HeaderPayloadType = 0x6F, SequenceNumber = 0x1234,
     Timestamp = 1000, SSRC = 0xDEADBEEF, Payload = [1, 2, 3]\<rparr>"

definition sample_request :: StartRequest where
  "sample_request = \<lparr>IngestURL = ''http://ingest/whip'', VideoPort = 5006, AudioPort = 5004\<rparr>"

definition sample_decode :: "string \<Rightarrow> StartRequest option" where
  "sample_decode b = (if b = ''{}'' then Some sample_request else None)"

definition sample_answer :: whip_response where
  "sample_answer = \<lparr>StatusCode = 201, body_bytes = ''v=0'', body_read_ok = True\<rparr>"

definition sample_rejection :: whip_response where
  "sample_rejection = \<lparr>StatusCode = 500, body_bytes = ''ingest rejected'', body_read_ok = True\<rparr>"

text \<open>An environment in which every external call succeeds and the endpoint answers \<open>r\<close>.\<close>

definition sample_env :: "whip_response \<Rightarrow> env" where
  "sample_env r = \<lparr>register_codec_ok = (\<lambda>_. True), new_pc_ok = True,
     new_track_ok = (\<lambda>_. True), create_offer = Some ''offer'', set_local_ok = (\<lambda>_. True),
     new_request_ok = (\<lambda>_. True), http_do = (\<lambda>_ _. Some r), set_remote_ok = (\<lambda>_. True),
     listen_udp_ok = (\<lambda>_. True)\<rparr>"

definition idle :: relay where
  "idle = \<lparr>running = False, pc = None\<rparr>"

section \<open>The handlers interleaved under the mutex\<close>

text \<open>
  \<^verbatim>\<open>net/http\<close> runs every request in a goroutine of its own, and \<^verbatim>\<open>shutdownHandler\<close>
  starts one more with \<^verbatim>\<open>go shutdown()\<close>. A thread of the model is one such
  goroutine, at a point of its code; a step of the model is one step of one thread.
  The points of \<^verbatim>\<open>startHandler\<close>: before \<^verbatim>\<open>mu.Lock()\<close>; at \<^verbatim>\<open>if running\<close>; in the
  part from the decoding of the body to the last check before \<^verbatim>\<open>running = true\<close>; at
  \<^verbatim>\<open>running = true\<close>; at the deferred \<^verbatim>\<open>mu.Unlock()\<close>. What that middle part does
  is fixed when the request arrives: the response the handler will write, and whether it
  reaches \<^verbatim>\<open>running = true\<close> (\<open>True\<close>) or returns early with that response.

  What a handler writes with \<^verbatim>\<open>w.Write\<close> or \<^verbatim>\<open>http.Error\<close> goes into the
  buffer of \<^verbatim>\<open>net/http\<close>; these responses are far below the buffer's size, so they
  are sent to the caller when the server flushes the buffer, after the handler has
  returned. That is the point \<open>Handler_return\<close>, the same for the three handlers.
\<close>

datatype point =
    Start_lock response bool
  | Start_check response bool
  | Start_body response bool
  | Start_set response
  | Start_unlock
  | Stop_lock
  | Stop_check
  | Stop_set
  | Stop_unlock
  | Shutdown_write
  | Shutdown_go
  | Exit_lock
  | Exit_set
  | Exit_unlock
  | Exit_exit
  | Handler_return
  | Done

text \<open>\<open>Done\<close>: the function has returned. It is also the content of a slot of the
  thread table that no thread has taken yet.\<close>

datatype request = POST_start response bool | POST_stop | POST_shutdown

text \<open>
  A \<^verbatim>\<open>/start\<close> request to the relay and to \<^verbatim>\<open>server.go\<close>: what the handler does
  once \<^verbatim>\<open>if running\<close> has found the flag clear. (The response and the new value of
  the flag are the same from every state with the flag clear: lemmas
  \<open>start_outcome_fixed\<close> and \<open>start_srv_outcome_fixed\<close>.)
\<close>

definition relay_start :: "(string \<Rightarrow> StartRequest option) \<Rightarrow> env \<Rightarrow> string \<Rightarrow> request" where
  "relay_start decode e reqbody =
     POST_start (fst (startHandler decode e reqbody idle))
       (running (snd (snd (startHandler decode e reqbody idle))))"

definition srv_start :: "(string \<Rightarrow> StartRequest option) \<Rightarrow> string \<Rightarrow> request" where
  "srv_start decode reqbody =
     POST_start (fst (startHandler_srv decode reqbody idle))
       (running (snd (snd (startHandler_srv decode reqbody idle))))"

text \<open>What has happened, newest first. The numbers are thread numbers. \<open>Responded\<close>:
  the handler has written its response (into the buffer); \<open>Delivered\<close>: the server has
  sent the response of that handler to the caller.\<close>

datatype event =
    Responded nat response
  | Set_running nat
  | Cleared_by_stop nat
  | Cleared_by_shutdown nat
  | Spawned nat nat
  | Exit_called nat int
  | Delivered nat

text \<open>
  The globals, the mutex (\<open>Some i\<close>: locked, by thread \<open>i\<close>; the program only tests
  whether it is locked), the thread table (the point of each thread, and how many threads
  have been started), the exit code once \<^verbatim>\<open>os.Exit\<close> has been called, and the events
  so far.
\<close>

record config = lifecycle +
  mu :: "nat option"
  threads :: "nat \<Rightarrow> point"
  nthreads :: nat
  exit_code :: "int option"
  trace :: "event list"

definition init :: config where
  "init = \<lparr>running = False, mu = None, threads = (\<lambda>_. Done), nthreads = 0,
            exit_code = None, trace = []\<rparr>"

definition goto :: "nat \<Rightarrow> point \<Rightarrow> config \<Rightarrow> config" where
  "goto i p c = c\<lparr>threads := (threads c)(i := p)\<rparr>"

definition emit :: "event \<Rightarrow> config \<Rightarrow> config" where
  "emit ev c = c\<lparr>trace := ev # trace c\<rparr>"

text \<open>One step of thread \<open>i\<close>, which stands at the given point. A thread at
  \<^verbatim>\<open>mu.Lock()\<close> waits while the mutex is locked.\<close>

fun step_at :: "point \<Rightarrow> nat \<Rightarrow> config \<Rightarrow> config" where
  "step_at (Start_lock r ok) i c =
     (if mu c \<noteq> None then c else goto i (Start_check r ok) (c\<lparr>mu := Some i\<rparr>))"
| "step_at (Start_check r ok) i c =
     (if running c
      then goto i Start_unlock (emit (Responded i (http_Error ''already running'' 409)) c)
      else goto i (Start_body r ok) c)"
| "step_at (Start_body r ok) i c =
     (if ok then goto i (Start_set r) c
      else goto i Start_unlock (emit (Responded i r) c))"
| "step_at (Start_set r) i c =
     goto i Start_unlock (emit (Responded i r) (emit (Set_running i) (c\<lparr>running := True\<rparr>)))"
| "step_at Start_unlock i c = goto i Handler_return (c\<lparr>mu := None\<rparr>)"
| "step_at Stop_lock i c =
     (if mu c \<noteq> None then c else goto i Stop_check (c\<lparr>mu := Some i\<rparr>))"
| "step_at Stop_check i c =
     (if \<not> running c
      then goto i Stop_unlock (emit (Responded i (http_Error ''not running'' 409)) c)
      else goto i Stop_set c)"
| "step_at Stop_set i c =
     goto i Stop_unlock
       (emit (Responded i (http_Write ''Relay stopped''))
          (emit (Cleared_by_stop i) (c\<lparr>running := False\<rparr>)))"
| "step_at Stop_unlock i c = goto i Handler_return (c\<lparr>mu := None\<rparr>)"
| "step_at Shutdown_write i c = goto i Shutdown_go (emit (Responded i shutdown_ack) c)"
| "step_at Shutdown_go i c =
     emit (Spawned i (nthreads c))
       (c\<lparr>threads := (threads c)(i := Handler_return, nthreads c := Exit_lock),
          nthreads := Suc (nthreads c)\<rparr>)"
| "step_at Exit_lock i c =
     (if mu c \<noteq> None then c else goto i Exit_set (c\<lparr>mu := Some i\<rparr>))"
| "step_at Exit_set i c =
     goto i Exit_unlock (emit (Cleared_by_shutdown i) (c\<lparr>running := False\<rparr>))"
| "step_at Exit_unlock i c = goto i Exit_exit (c\<lparr>mu := None\<rparr>)"
| "step_at Exit_exit i c = goto i Done (emit (Exit_called i 0) (c\<lparr>exit_code := Some 0\<rparr>))"
| "step_at Handler_return i c = goto i Done (emit (Delivered i) c)"
| "step_at Done i c = c"

text \<open>After \<^verbatim>\<open>os.Exit\<close> nothing runs.\<close>

definition step :: "nat \<Rightarrow> config \<Rightarrow> config" where
  "step i c =
     (if exit_code c \<noteq> None \<or> nthreads c \<le> i then c
      else step_at (threads c i) i c)"

fun entry :: "request \<Rightarrow> point" where
  "entry (POST_start r ok) = Start_lock r ok"
| "entry POST_stop = Stop_lock"
| "entry POST_shutdown = Shutdown_write"

text \<open>A schedule: requests arrive, and threads take steps, in any order.\<close>

datatype action = Arrive request | Run nat

fun exec :: "action \<Rightarrow> config \<Rightarrow> config" where
  "exec (Arrive r) c =
     (if exit_code c \<noteq> None then c
      else c\<lparr>threads := (threads c)(nthreads c := entry r), nthreads := Suc (nthreads c)\<rparr>)"
| "exec (Run i) c = step i c"

definition run :: "action list \<Rightarrow> config \<Rightarrow> config" where
  "run sched c = fold exec sched c"

text \<open>The points at which a thread holds the mutex.\<close>

fun in_transition :: "point \<Rightarrow> bool" where
  "in_transition (Start_check r ok) = True"
| "in_transition (Start_body r ok) = True"
| "in_transition (Start_set r) = True"
| "in_transition Start_unlock = True"
| "in_transition Stop_check = True"
| "in_transition Stop_set = True"
| "in_transition Stop_unlock = True"
| "in_transition Exit_set = True"
| "in_transition Exit_unlock = True"
| "in_transition p = False"

text \<open>The points whose step assigns to \<^verbatim>\<open>running\<close>.\<close>

fun writes_running :: "point \<Rightarrow> bool" where
  "writes_running (Start_set r) = True"
| "writes_running Stop_set = True"
| "writes_running Exit_set = True"
| "writes_running p = False"

text \<open>
  The sessions that are Running after the events of a trace (newest first): a session
  is Running from the moment its \<^verbatim>\<open>Start\<close> sets the flag until the flag is cleared.
\<close>

fun sessions :: "event list \<Rightarrow> nat list" where
  "sessions [] = []"
| "sessions (Set_running i # es) = i # sessions es"
| "sessions (Cleared_by_stop i # es) = []"
| "sessions (Cleared_by_shutdown i # es) = []"
| "sessions (ev # es) = sessions es"

text \<open>
  In the events \<open>es\<close> (newest first), goroutine \<open>g\<close> was started by a
  \<^verbatim>\<open>shutdownHandler\<close> that had written its acknowledgement before.
\<close>

fun acknowledged :: "nat \<Rightarrow> event list \<Rightarrow> bool" where
  "acknowledged g [] = False"
| "acknowledged g (Spawned h g' # es) =
     (if g' = g then Responded h shutdown_ack \<in> set es else acknowledged g es)"
| "acknowledged g (ev # es) = acknowledged g es"

text \<open>
  Every clearing of the flag by \<^verbatim>\<open>shutdown()\<close> in the trace comes after the
  acknowledgement of the handler that started the goroutine, and every call of
  \<^verbatim>\<open>os.Exit\<close> comes after that acknowledgement and after the goroutine's clearing of
  the flag.
\<close>

fun shutdown_ordered :: "event list \<Rightarrow> bool" where
  "shutdown_ordered [] = True"
| "shutdown_ordered (Cleared_by_shutdown g # es) = (acknowledged g es \<and> shutdown_ordered es)"
| "shutdown_ordered (Exit_called g x # es) =
     (acknowledged g es \<and> Cleared_by_shutdown g \<in> set es \<and> shutdown_ordered es)"
| "shutdown_ordered (ev # es) = shutdown_ordered es"

text \<open>The points between \<^verbatim>\<open>if running\<close> found clear and \<^verbatim>\<open>running = true\<close>.\<close>

fun past_check :: "point \<Rightarrow> bool" where
  "past_check (Start_body r ok) = True"
| "past_check (Start_set r) = True"
| "past_check p = False"

text \<open>The points of the goroutine \<^verbatim>\<open>shutdown()\<close>.\<close>

fun exit_thread :: "point \<Rightarrow> bool" where
  "exit_thread Exit_lock = True"
| "exit_thread Exit_set = True"
| "exit_thread Exit_unlock = True"
| "exit_thread Exit_exit = True"
| "exit_thread p = False"

text \<open>The points of \<^verbatim>\<open>shutdown()\<close> after \<^verbatim>\<open>running = false\<close>.\<close>

fun flag_cleared :: "point \<Rightarrow> bool" where
  "flag_cleared Exit_unlock = True"
| "flag_cleared Exit_exit = True"
| "flag_cleared p = False"


text \<open>
  Sample schedules. In \<open>two_starts\<close>, two \<^verbatim>\<open>/start\<close> requests to the relay arrive
  together; the second handler waits at \<^verbatim>\<open>mu.Lock()\<close> until the first has returned.
  In \<open>start_then_stop\<close>, \<^verbatim>\<open>server.go\<close> is started and stopped. In
  \<open>start_then_shutdown\<close>, a relay is started and then shut down.
\<close>

definition two_starts :: "action list" where
  "two_starts =
     [Arrive (relay_start sample_decode (sample_env sample_answer) ''{}''),
      Arrive (relay_start sample_decode (sample_env sample_answer) ''{}''),
      Run 0, Run 1, Run 0, Run 1, Run 0, Run 0, Run 1, Run 0, Run 1, Run 1, Run 1]"


definition start_then_stop :: "action list" where
  "start_then_stop =
     [Arrive (srv_start sample_decode ''{}''), Run 0, Run 0, Run 0, Run 0, Run 0,
      Arrive POST_stop, Run 1, Run 1, Run 1, Run 1]"




text \<open>The invariants of the interleaving.\<close>

definition lock_inv :: "config \<Rightarrow> bool" where
  "lock_inv c \<longleftrightarrow>
     (\<forall>i. in_transition (threads c i) \<longleftrightarrow> mu c = Some i)
     \<and> (\<forall>i \<ge> nthreads c. threads c i = Done)"

definition flag_inv :: "config \<Rightarrow> bool" where
  "flag_inv c \<longleftrightarrow>
     (\<forall>i. past_check (threads c i) \<longrightarrow> \<not> running c)
     \<and> (running c \<longleftrightarrow> sessions (trace c) \<noteq> [])
     \<and> length (sessions (trace c)) \<le> 1"

definition ack_inv :: "config \<Rightarrow> bool" where
  "ack_inv c \<longleftrightarrow>
     shutdown_ordered (trace c)
     \<and> (\<forall>i. threads c i = Shutdown_go \<longrightarrow> Responded i shutdown_ack \<in> set (trace c))
     \<and> (\<forall>g. exit_thread (threads c g) \<longrightarrow> acknowledged g (trace c))
     \<and> (\<forall>g. flag_cleared (threads c g) \<longrightarrow> Cleared_by_shutdown g \<in> set (trace c))
     \<and> (exit_code c \<noteq> None \<longrightarrow>
           exit_code c = Some 0 \<and> (\<exists>g. Exit_called g 0 \<in> set (trace c)))"

section \<open>Theorems\<close>

declare show_nat.simps [simp del]

lemma sample_unmarshal_datagram: "sample_unmarshal sample_datagram = Some sample_packet"
  by (simp add: sample_unmarshal_def sample_datagram_def sample_packet_def be16_def be32_def)


subsection \<open>Helper facts\<close>

lemma digit_cases: "n < 10 \<Longrightarrow> n \<in> {0, 1, 2, 3, 4, 5, 6, 7, 8, 9::nat}"
  by auto

lemma digit_char_value:
  assumes "n < 10"
  shows "digit_value (digit_char n) = n" and "is_digit (digit_char n)"
    and "digit_char n = CHR ''0'' \<longleftrightarrow> n = 0"
  using digit_cases [OF assms]
  by (auto simp: digit_value_def digit_char_def is_digit_def)

lemma read_nat_snoc: "read_nat (ds @ [ch]) = 10 * read_nat ds + digit_value ch"
  by (simp add: read_nat_def)

lemma read_nat_show_nat: "read_nat (show_nat n) = n"
proof (induction n rule: show_nat.induct)
  case (1 n)
  show ?case
  proof (cases "n < 10")
    case True
    then show ?thesis
      by (simp add: show_nat.simps [of n] read_nat_def digit_char_value)
  next
    case False
    with 1 have "read_nat (show_nat (n div 10)) = n div 10" by simp
    with False show ?thesis
      by (simp add: show_nat.simps [of n] read_nat_snoc digit_char_value)
  qed
qed

lemma show_nat_not_Nil: "show_nat n \<noteq> []"
  by (simp add: show_nat.simps [of n])

lemma show_nat_digits: "list_all is_digit (show_nat n)"
proof (induction n rule: show_nat.induct)
  case (1 n)
  then show ?case
    by (cases "n < 10") (simp_all add: show_nat.simps [of n] digit_char_value)
qed

lemma show_nat_leading: "0 < n \<Longrightarrow> hd (show_nat n) \<noteq> CHR ''0''"
proof (induction n rule: show_nat.induct)
  case (1 n)
  show ?case
  proof (cases "n < 10")
    case True
    with "1.prems" show ?thesis
      by (simp add: show_nat.simps [of n] digit_char_value)
  next
    case False
    then have "0 < n div 10" by simp
    with 1 False have "hd (show_nat (n div 10)) \<noteq> CHR ''0''" by simp
    with False show ?thesis
      by (simp add: show_nat.simps [of n] show_nat_not_Nil)
  qed
qed

lemma show_nat_decimal: "decimal_numeral (show_nat n)"
proof (cases "n = 0")
  case True
  then show ?thesis
    by (simp add: decimal_numeral_def show_nat.simps [of 0] digit_char_def is_digit_def)
next
  case False
  then show ?thesis
    by (simp add: decimal_numeral_def show_nat_not_Nil show_nat_digits show_nat_leading)
qed

lemma show_nat_no_minus: "hd (show_nat n) \<noteq> CHR ''-''"
proof -
  from show_nat_digits [of n] show_nat_not_Nil [of n] have "is_digit (hd (show_nat n))"
    by (cases "show_nat n") simp_all
  then show ?thesis by (auto simp: is_digit_def)
qed

lemma read_int_show_int: "read_int (show_int i) = i"
proof (cases "i < 0")
  case True
  then show ?thesis
    by (simp add: show_int_def read_int_def read_nat_show_nat)
next
  case False
  from show_nat_no_minus [of "nat i"] show_nat_not_Nil [of "nat i"]
  have "read_int (show_nat (nat i)) = int (read_nat (show_nat (nat i)))"
    by (cases "show_nat (nat i)") (simp_all add: read_int_def)
  with False show ?thesis
    by (simp add: show_int_def read_nat_show_nat)
qed

lemma show_int_decimal: "0 \<le> i \<Longrightarrow> decimal_numeral (show_int i)"
  by (simp add: show_int_def show_nat_decimal)

lemma rejected_start:
  "startHandler sample_decode (sample_env sample_rejection) ''{}'' idle =
     (\<lparr>http_status = 500, http_body = ''whip error 500: ingest rejected'' @ [CHR 0x0A]\<rparr>,
      construction_calls sample_request @
        [CreateOffer, SetLocalDescription ''offer'', NewRequest ''http://ingest/whip'' ''offer'',
         HttpPost ''http://ingest/whip'' ''offer'', ReadBody, CloseBody],
      \<lparr>running = False,
        pc = Some \<lparr>pc_tracks = [audioTrack, videoTrack], local_description = Some ''offer'',
                   remote_description = None\<rparr>\<rparr>)"
  by (simp add: startHandler_def sample_decode_def sample_env_def sample_rejection_def
        sample_request_def idle_def Let_def http_Error_def show_int_def show_nat.simps
        digit_char_def new_peerconn_def)

lemma receive_loop_prefix:
  "prefix (fst (receive_loop unmarshal tr evs))
     (List.map_filter
        (\<lambda>ev. case ev of ReadError \<Rightarrow> None
               | Datagram d w \<Rightarrow> map_option (WriteRTP tr) (unmarshal (take 1500 d))) evs)"
proof (induction unmarshal tr evs rule: receive_loop.induct)
  case (1 unmarshal tr)
  show ?case by simp
next
  case (2 unmarshal tr evs)
  show ?case by simp
next
  case (3 unmarshal tr d write_ok evs)
  show ?case
  proof (cases "unmarshal (take 1500 d)")
    case None
    with 3 show ?thesis by (simp add: List.map_filter_simps)
  next
    case (Some pkt)
    with 3 show ?thesis by (cases write_ok) (simp_all add: List.map_filter_simps)
  qed
qed

lemma receive_loop_all_delivered:
  "list_all (\<lambda>ev. case ev of ReadError \<Rightarrow> False | Datagram d w \<Rightarrow> w) evs \<Longrightarrow>
   receive_loop unmarshal tr evs =
     (List.map_filter
        (\<lambda>ev. case ev of ReadError \<Rightarrow> None
               | Datagram d w \<Rightarrow> map_option (WriteRTP tr) (unmarshal (take 1500 d))) evs,
      Receiving)"
proof (induction unmarshal tr evs rule: receive_loop.induct)
  case (3 unmarshal tr d write_ok evs)
  then show ?case
    by (cases "unmarshal (take 1500 d)") (simp_all add: List.map_filter_simps)
qed (simp_all add: List.map_filter_simps)



lemma accepted_start:
  "startHandler sample_decode (sample_env sample_answer) ''{}'' idle =
     (\<lparr>http_status = 200, http_body = ''Relay started''\<rparr>,
      construction_calls sample_request @
        [CreateOffer, SetLocalDescription ''offer'', NewRequest ''http://ingest/whip'' ''offer'',
         HttpPost ''http://ingest/whip'' ''offer'', ReadBody, SetRemoteDescription ''v=0'',
         Log (starting_relay sample_request), CloseBody],
      \<lparr>running = True,
        pc = Some \<lparr>pc_tracks = [audioTrack, videoTrack], local_description = Some ''offer'',
                   remote_description = Some ''v=0''\<rparr>\<rparr>)"
  by (simp add: startHandler_def sample_decode_def sample_env_def sample_answer_def
        sample_request_def idle_def Let_def http_Write_def new_peerconn_def)

lemma start_ignores_bind_result:
  "startHandler decode (e\<lparr>listen_udp_ok := f\<rparr>) reqbody s = startHandler decode e reqbody s"
  by (simp add: startHandler_def Let_def cong: if_cong option.case_cong)

lemma successful_start_calls:
  assumes "decode reqbody = Some req"
      and "running (snd (snd (startHandler decode e reqbody s)))" and "\<not> running s"
  shows "\<exists>sdp r. create_offer e = Some sdp \<and> http_do e (IngestURL req) sdp = Some r
           \<and> startHandler decode e reqbody s =
               (http_Write ''Relay started'',
                construction_calls req @
                  [CreateOffer, SetLocalDescription sdp, NewRequest (IngestURL req) sdp,
                   HttpPost (IngestURL req) sdp, ReadBody, SetRemoteDescription (body_bytes r),
                   Log (starting_relay req), CloseBody],
                s\<lparr>pc := Some \<lparr>pc_tracks = [audioTrack, videoTrack],
                                local_description = Some sdp,
                                remote_description = Some (body_bytes r)\<rparr>,
                  running := True\<rparr>)"
  using assms
  by (auto simp: startHandler_def Let_def new_peerconn_def split: if_splits option.splits)

lemma start_fails_1:
  assumes "\<not> running s" and "decode reqbody = Some req"
  shows "\<exists>e. fst (startHandler decode e reqbody s) = http_Error ''failed to register audio codec'' 500
            \<and> \<not> running (snd (snd (startHandler decode e reqbody s)))"
  using assms
  by (intro exI [of _ "(sample_env sample_answer)\<lparr>register_codec_ok := (\<lambda>m. m \<noteq> Audio)\<rparr>"])
     (simp add: startHandler_def sample_env_def sample_answer_def sample_rejection_def Let_def
          show_int_def show_nat.simps digit_char_def)

lemma start_fails_2:
  assumes "\<not> running s" and "decode reqbody = Some req"
  shows "\<exists>e. fst (startHandler decode e reqbody s) = http_Error ''failed to register video codec'' 500
            \<and> \<not> running (snd (snd (startHandler decode e reqbody s)))"
  using assms
  by (intro exI [of _ "(sample_env sample_answer)\<lparr>register_codec_ok := (\<lambda>m. m \<noteq> Video)\<rparr>"])
     (simp add: startHandler_def sample_env_def sample_answer_def sample_rejection_def Let_def
          show_int_def show_nat.simps digit_char_def)

lemma start_fails_3:
  assumes "\<not> running s" and "decode reqbody = Some req"
  shows "\<exists>e. fst (startHandler decode e reqbody s) = http_Error ''failed to create pc'' 500
            \<and> \<not> running (snd (snd (startHandler decode e reqbody s)))"
  using assms
  by (intro exI [of _ "(sample_env sample_answer)\<lparr>new_pc_ok := False\<rparr>"])
     (simp add: startHandler_def sample_env_def sample_answer_def sample_rejection_def Let_def
          show_int_def show_nat.simps digit_char_def)

lemma start_fails_4:
  assumes "\<not> running s" and "decode reqbody = Some req"
  shows "\<exists>e. fst (startHandler decode e reqbody s) = http_Error ''failed audio track'' 500
            \<and> \<not> running (snd (snd (startHandler decode e reqbody s)))"
  using assms
  by (intro exI [of _ "(sample_env sample_answer)\<lparr>new_track_ok := (\<lambda>m. m \<noteq> Audio)\<rparr>"])
     (simp add: startHandler_def sample_env_def sample_answer_def sample_rejection_def Let_def
          show_int_def show_nat.simps digit_char_def)

lemma start_fails_5:
  assumes "\<not> running s" and "decode reqbody = Some req"
  shows "\<exists>e. fst (startHandler decode e reqbody s) = http_Error ''failed video track'' 500
            \<and> \<not> running (snd (snd (startHandler decode e reqbody s)))"
  using assms
  by (intro exI [of _ "(sample_env sample_answer)\<lparr>new_track_ok := (\<lambda>m. m \<noteq> Video)\<rparr>"])
     (simp add: startHandler_def sample_env_def sample_answer_def sample_rejection_def Let_def
          show_int_def show_nat.simps digit_char_def)

lemma start_fails_6:
  assumes "\<not> running s" and "decode reqbody = Some req"
  shows "\<exists>e. fst (startHandler decode e reqbody s) = http_Error ''failed to create offer'' 500
            \<and> \<not> running (snd (snd (startHandler decode e reqbody s)))"
  using assms
  by (intro exI [of _ "(sample_env sample_answer)\<lparr>create_offer := None\<rparr>"])
     (simp add: startHandler_def sample_env_def sample_answer_def sample_rejection_def Let_def
          show_int_def show_nat.simps digit_char_def)

lemma start_fails_7:
  assumes "\<not> running s" and "decode reqbody = Some req"
  shows "\<exists>e. fst (startHandler decode e reqbody s) = http_Error ''failed to set local desc'' 500
            \<and> \<not> running (snd (snd (startHandler decode e reqbody s)))"
  using assms
  by (intro exI [of _ "(sample_env sample_answer)\<lparr>set_local_ok := (\<lambda>_. False)\<rparr>"])
     (simp add: startHandler_def sample_env_def sample_answer_def sample_rejection_def Let_def
          show_int_def show_nat.simps digit_char_def)

lemma start_fails_8:
  assumes "\<not> running s" and "decode reqbody = Some req"
  shows "\<exists>e. fst (startHandler decode e reqbody s) = http_Error ''failed to build whip request'' 500
            \<and> \<not> running (snd (snd (startHandler decode e reqbody s)))"
  using assms
  by (intro exI [of _ "(sample_env sample_answer)\<lparr>new_request_ok := (\<lambda>_. False)\<rparr>"])
     (simp add: startHandler_def sample_env_def sample_answer_def sample_rejection_def Let_def
          show_int_def show_nat.simps digit_char_def)

lemma start_fails_9:
  assumes "\<not> running s" and "decode reqbody = Some req"
  shows "\<exists>e. fst (startHandler decode e reqbody s) = http_Error ''whip request failed'' 500
            \<and> \<not> running (snd (snd (startHandler decode e reqbody s)))"
  using assms
  by (intro exI [of _ "(sample_env sample_answer)\<lparr>http_do := (\<lambda>_ _. None)\<rparr>"])
     (simp add: startHandler_def sample_env_def sample_answer_def sample_rejection_def Let_def
          show_int_def show_nat.simps digit_char_def)

lemma start_fails_10:
  assumes "\<not> running s" and "decode reqbody = Some req"
  shows "\<exists>e. fst (startHandler decode e reqbody s) = http_Error ''whip error 500: ingest rejected'' 500
            \<and> \<not> running (snd (snd (startHandler decode e reqbody s)))"
  using assms
  by (intro exI [of _ "sample_env sample_rejection"])
     (simp add: startHandler_def sample_env_def sample_answer_def sample_rejection_def Let_def
          show_int_def show_nat.simps digit_char_def)

lemma start_fails_11:
  assumes "\<not> running s" and "decode reqbody = Some req"
  shows "\<exists>e. fst (startHandler decode e reqbody s) = http_Error ''failed to read whip answer'' 500
            \<and> \<not> running (snd (snd (startHandler decode e reqbody s)))"
  using assms
  by (intro exI [of _ "sample_env (sample_answer\<lparr>body_read_ok := False\<rparr>)"])
     (simp add: startHandler_def sample_env_def sample_answer_def sample_rejection_def Let_def
          show_int_def show_nat.simps digit_char_def)

lemma start_fails_12:
  assumes "\<not> running s" and "decode reqbody = Some req"
  shows "\<exists>e. fst (startHandler decode e reqbody s) = http_Error ''failed to set remote desc'' 500
            \<and> \<not> running (snd (snd (startHandler decode e reqbody s)))"
  using assms
  by (intro exI [of _ "(sample_env sample_answer)\<lparr>set_remote_ok := (\<lambda>_. False)\<rparr>"])
     (simp add: startHandler_def sample_env_def sample_answer_def sample_rejection_def Let_def
          show_int_def show_nat.simps digit_char_def)

subsection \<open>Lifecycle conflicts\<close>

text \<open>
  Claim C7. \<^verbatim>\<open>Start\<close> while the flag \<^verbatim>\<open>running\<close> is set answers 409
  \<^verbatim>\<open>already running\<close> (AlreadyRunning), in the relay and in \<^verbatim>\<open>server.go\<close>;
  \<^verbatim>\<open>Stop\<close> while the flag is clear answers 409 \<^verbatim>\<open>not running\<close> (NotRunning). In
  each case the handler makes no external call and returns the globals as it found them.
\<close>

theorem conflicts_leave_state_unchanged:
  "(running s \<longrightarrow> startHandler decode e reqbody s = (http_Error ''already running'' 409, [], s))
   \<and> (running t \<longrightarrow> startHandler_srv decode reqbody t = (http_Error ''already running'' 409, [], t))
   \<and> (\<not> running t \<longrightarrow> stopHandler t = (http_Error ''not running'' 409, [], t))"
  by (simp add: startHandler_def startHandler_srv_def stopHandler_def)

theorem conflicts_leave_state_unchanged_witness:
  "startHandler sample_decode (sample_env sample_answer) ''{}'' (idle\<lparr>running := True\<rparr>)
     = (\<lparr>http_status = 409, http_body = ''already running'' @ [CHR 0x0A]\<rparr>, [], idle\<lparr>running := True\<rparr>)
   \<and> startHandler_srv sample_decode ''{}'' (idle\<lparr>running := True\<rparr>)
     = (\<lparr>http_status = 409, http_body = ''already running'' @ [CHR 0x0A]\<rparr>, [], idle\<lparr>running := True\<rparr>)
   \<and> stopHandler idle = (\<lparr>http_status = 409, http_body = ''not running'' @ [CHR 0x0A]\<rparr>, [], idle)"
  using conflicts_leave_state_unchanged [of "idle\<lparr>running := True\<rparr>" sample_decode "sample_env sample_answer" "''{}''" "idle\<lparr>running := True\<rparr>"]
    conflicts_leave_state_unchanged [of "idle" sample_decode "sample_env sample_answer" "''{}''" "idle"]
  by (simp add: idle_def http_Error_def)

text \<open>
  Claim C9. While \<^verbatim>\<open>running\<close> is set, \<^verbatim>\<open>Start\<close> answers 409 for every request body
  and every decoder, an undecodable body included: the flag is tested before the body is
  decoded, so the answer is never the 400 of a bad request.
\<close>

theorem running_check_precedes_decoding:
  assumes "running s"
  shows "startHandler decode e reqbody s = (http_Error ''already running'' 409, [], s)
       \<and> startHandler_srv decode reqbody s = (http_Error ''already running'' 409, [], s)
       \<and> http_status (fst (startHandler decode e reqbody s)) \<noteq> 400
       \<and> http_status (fst (startHandler_srv decode reqbody s)) \<noteq> 400"
  using assms by (simp add: startHandler_def startHandler_srv_def http_Error_def)

theorem running_check_precedes_decoding_witness:
  "sample_decode ''not json'' = None
   \<and> fst (startHandler sample_decode (sample_env sample_answer) ''not json'' (idle\<lparr>running := True\<rparr>))
       = \<lparr>http_status = 409, http_body = ''already running'' @ [CHR 0x0A]\<rparr>
   \<and> fst (startHandler_srv sample_decode ''not json'' (idle\<lparr>running := True\<rparr>))
       = \<lparr>http_status = 409, http_body = ''already running'' @ [CHR 0x0A]\<rparr>
   \<and> fst (startHandler sample_decode (sample_env sample_answer) ''not json'' idle)
       = \<lparr>http_status = 400, http_body = ''bad request'' @ [CHR 0x0A]\<rparr>"
  using running_check_precedes_decoding
    [of "idle\<lparr>running := True\<rparr>" sample_decode "sample_env sample_answer" "''not json''"]
  by (simp add: idle_def http_Error_def sample_decode_def startHandler_def)

subsection \<open>The WHIP exchange\<close>

text \<open>
  Claim C5. When \<^verbatim>\<open>startHandler\<close> has posted the offer and the endpoint's status is
  neither 200 nor 201, the handler answers 500 with the text
  \<^verbatim>\<open>whip error <status>: <body>\<close> and the flag \<^verbatim>\<open>running\<close> stays clear. The
  status in the text is the decimal numeral of the status code: reading it back gives the
  code, and it is written in digits with no leading zero (after a minus sign for a negative
  code). The body in the text is the bytes read from the response body. (The error of
  \<^verbatim>\<open>io.ReadAll\<close> is discarded on this path: the body is whatever was read.)
\<close>

theorem whip_error_diagnostic:
  assumes "startHandler decode e reqbody s = (resp, calls, s')"
      and "HttpPost url sdp \<in> set calls"
      and "http_do e url sdp = Some r"
      and "StatusCode r \<noteq> 200" and "StatusCode r \<noteq> 201"
  shows "resp = http_Error (''whip error '' @ show_int (StatusCode r) @ '': '' @ body_bytes r) 500
       \<and> read_int (show_int (StatusCode r)) = StatusCode r
       \<and> (0 \<le> StatusCode r \<longrightarrow> decimal_numeral (show_int (StatusCode r)))
       \<and> (StatusCode r < 0 \<longrightarrow>
            (\<exists>ds. show_int (StatusCode r) = CHR ''-'' # ds \<and> decimal_numeral ds
                  \<and> int (read_nat ds) = - StatusCode r))
       \<and> sublist (show_int (StatusCode r)) (http_body resp)
       \<and> sublist (body_bytes r) (http_body resp)
       \<and> \<not> running s'"
proof -
  have r: "resp = http_Error (''whip error '' @ show_int (StatusCode r) @ '': '' @ body_bytes r) 500"
    and n: "\<not> running s'"
    using assms
    by (auto simp: startHandler_def Let_def construction_calls_def
             split: if_splits option.splits)
  have "sublist (show_int (StatusCode r)) (''whip error '' @ show_int (StatusCode r) @ ('': '' @ body_bytes r @ [CHR 0x0A]))"
    by (rule sublist_appendI)
  moreover have "sublist (body_bytes r) ((''whip error '' @ show_int (StatusCode r) @ '': '') @ body_bytes r @ [CHR 0x0A])"
    by (rule sublist_appendI)
  moreover have "StatusCode r < 0 \<longrightarrow>
            (\<exists>ds. show_int (StatusCode r) = CHR ''-'' # ds \<and> decimal_numeral ds
                  \<and> int (read_nat ds) = - StatusCode r)"
    by (simp add: show_int_def show_nat_decimal read_nat_show_nat)
  ultimately show ?thesis
    using r n read_int_show_int [of "StatusCode r"] show_int_decimal [of "StatusCode r"]
    by (simp add: http_Error_def)
qed

theorem whip_error_diagnostic_witness:
  "fst (startHandler sample_decode (sample_env sample_rejection) ''{}'' idle) =
     \<lparr>http_status = 500, http_body = ''whip error 500: ingest rejected'' @ [CHR 0x0A]\<rparr>
   \<and> read_int ''500'' = 500 \<and> decimal_numeral ''500''
   \<and> sublist ''500'' (http_body (fst (startHandler sample_decode (sample_env sample_rejection) ''{}'' idle)))
   \<and> sublist ''ingest rejected''
        (http_body (fst (startHandler sample_decode (sample_env sample_rejection) ''{}'' idle)))"
proof -
  have d: "http_do (sample_env sample_rejection) ''http://ingest/whip'' ''offer'' = Some sample_rejection"
    by (simp add: sample_env_def)
  have c: "StatusCode sample_rejection \<noteq> 200" "StatusCode sample_rejection \<noteq> 201"
    by (simp_all add: sample_rejection_def)
  have s: "show_int (StatusCode sample_rejection) = ''500''"
    by (simp add: sample_rejection_def show_int_def show_nat.simps digit_char_def)
  have p: "(0::int) \<le> StatusCode sample_rejection"
    by (simp add: sample_rejection_def)
  have q: "StatusCode sample_rejection = 500"
    by (simp add: sample_rejection_def)
  have b: "body_bytes sample_rejection = ''ingest rejected''"
    by (simp add: sample_rejection_def)
  show ?thesis
    using whip_error_diagnostic [OF rejected_start _ d c] s b p q
    by (simp add: rejected_start http_Error_def)
qed

subsection \<open>The listener\<close>

text \<open>
  Claim C4. For a datagram whose received bytes \<^verbatim>\<open>buf[:n]\<close> decode to a packet, the
  packet handed to \<^verbatim>\<open>track.WriteRTP\<close> is that packet: SSRC, sequence number,
  timestamp and payload are the decoded ones (for a datagram of at most 1500 bytes, the
  ones decoded from the datagram itself). Over a whole run the writes are, in order, the
  decoded packets of the datagrams received, up to the first failure.
\<close>

theorem listener_forwards_decoded_packet:
  "(listen_udp_ok e port \<and> unmarshal (take 1500 d) = Some p \<longrightarrow>
      (\<exists>q rest. fst (listenRTP unmarshal e port tr (Datagram d w # evs)) = WriteRTP tr q # rest
         \<and> q = p \<and> SSRC q = SSRC p \<and> SequenceNumber q = SequenceNumber p
         \<and> Timestamp q = Timestamp p \<and> Payload q = Payload p))
   \<and> (listen_udp_ok e port \<and> length d \<le> 1500 \<and> unmarshal d = Some p \<longrightarrow>
        hd (fst (listenRTP unmarshal e port tr (Datagram d w # evs))) = WriteRTP tr p)
   \<and> prefix (fst (listenRTP unmarshal e port tr evs))
       (List.map_filter
          (\<lambda>ev. case ev of ReadError \<Rightarrow> None
                 | Datagram d w \<Rightarrow> map_option (WriteRTP tr) (unmarshal (take 1500 d))) evs)
   \<and> (listen_udp_ok e port
        \<and> list_all (\<lambda>ev. case ev of ReadError \<Rightarrow> False | Datagram d w \<Rightarrow> w) evs \<longrightarrow>
        fst (listenRTP unmarshal e port tr evs) =
          List.map_filter
            (\<lambda>ev. case ev of ReadError \<Rightarrow> None
                   | Datagram d w \<Rightarrow> map_option (WriteRTP tr) (unmarshal (take 1500 d))) evs)"
proof (intro conjI impI)
  assume a: "listen_udp_ok e port \<and> unmarshal (take 1500 d) = Some p"
  then show "\<exists>q rest. fst (listenRTP unmarshal e port tr (Datagram d w # evs)) = WriteRTP tr q # rest
         \<and> q = p \<and> SSRC q = SSRC p \<and> SequenceNumber q = SequenceNumber p
         \<and> Timestamp q = Timestamp p \<and> Payload q = Payload p"
    by (cases w) (simp_all add: listenRTP_def)
next
  assume "listen_udp_ok e port \<and> length d \<le> 1500 \<and> unmarshal d = Some p"
  then show "hd (fst (listenRTP unmarshal e port tr (Datagram d w # evs))) = WriteRTP tr p"
    by (cases w) (simp_all add: listenRTP_def)
next
  show "prefix (fst (listenRTP unmarshal e port tr evs))
       (List.map_filter
          (\<lambda>ev. case ev of ReadError \<Rightarrow> None
                 | Datagram d w \<Rightarrow> map_option (WriteRTP tr) (unmarshal (take 1500 d))) evs)"
    using receive_loop_prefix [of unmarshal tr evs] by (simp add: listenRTP_def)
next
  assume "listen_udp_ok e port
        \<and> list_all (\<lambda>ev. case ev of ReadError \<Rightarrow> False | Datagram d w \<Rightarrow> w) evs"
  then show "fst (listenRTP unmarshal e port tr evs) =
          List.map_filter
            (\<lambda>ev. case ev of ReadError \<Rightarrow> None
                   | Datagram d w \<Rightarrow> map_option (WriteRTP tr) (unmarshal (take 1500 d))) evs"
    by (simp add: listenRTP_def receive_loop_all_delivered)
qed

theorem listener_forwards_decoded_packet_witness:
  "listenRTP sample_unmarshal (sample_env sample_answer) 5004 audioTrack
     [Datagram sample_datagram True] = ([WriteRTP audioTrack sample_packet], Receiving)
   \<and> SSRC sample_packet = 0xDEADBEEF \<and> SequenceNumber sample_packet = 0x1234
   \<and> Timestamp sample_packet = 1000 \<and> Payload sample_packet = [1, 2, 3]"
proof -
  have t: "take 1500 sample_datagram = sample_datagram"
    by (simp add: sample_datagram_def)
  have b: "listen_udp_ok (sample_env sample_answer) 5004"
    by (simp add: sample_env_def)
  have "hd (fst (listenRTP sample_unmarshal (sample_env sample_answer) 5004 audioTrack
          [Datagram sample_datagram True])) = WriteRTP audioTrack sample_packet"
    using listener_forwards_decoded_packet
      [of "sample_env sample_answer" 5004 sample_unmarshal sample_datagram sample_packet
          audioTrack True "[]"]
      b sample_unmarshal_datagram
    by (simp add: sample_datagram_def)
  then show ?thesis
    by (simp add: listenRTP_def b t sample_unmarshal_datagram sample_packet_def)
qed




text \<open>
  Claim C2, as stated, fails: with the audio port (or the video port) unavailable, the
  listener returns at once and \<^verbatim>\<open>startHandler\<close> still answers 200 and sets
  \<^verbatim>\<open>running\<close>. \<^verbatim>\<open>listenRTP\<close> runs as a goroutine and returns nothing to its
  caller.
\<close>

theorem start_reports_success_after_bind_failure:
  "listenRTP sample_unmarshal ((sample_env sample_answer)\<lparr>listen_udp_ok := (\<lambda>p. p \<noteq> 5004)\<rparr>)
      5004 audioTrack [Datagram sample_datagram True] = ([], Stopped BindFailed)
   \<and> startHandler sample_decode ((sample_env sample_answer)\<lparr>listen_udp_ok := (\<lambda>p. p \<noteq> 5004)\<rparr>)
        ''{}'' idle
     = (\<lparr>http_status = 200, http_body = ''Relay started''\<rparr>,
        construction_calls sample_request @
          [CreateOffer, SetLocalDescription ''offer'', NewRequest ''http://ingest/whip'' ''offer'',
           HttpPost ''http://ingest/whip'' ''offer'', ReadBody, SetRemoteDescription ''v=0'',
           Log (starting_relay sample_request), CloseBody],
        \<lparr>running = True,
          pc = Some \<lparr>pc_tracks = [audioTrack, videoTrack], local_description = Some ''offer'',
                     remote_description = Some ''v=0''\<rparr>\<rparr>)
   \<and> listenRTP sample_unmarshal ((sample_env sample_answer)\<lparr>listen_udp_ok := (\<lambda>p. p \<noteq> 5006)\<rparr>)
      5006 videoTrack [Datagram sample_datagram True] = ([], Stopped BindFailed)
   \<and> running (snd (snd (startHandler sample_decode
        ((sample_env sample_answer)\<lparr>listen_udp_ok := (\<lambda>p. p \<noteq> 5006)\<rparr>) ''{}'' idle)))"
  by (simp add: listenRTP_def start_ignores_bind_result accepted_start)

text \<open>
  Claim C2, amended. When binding the port fails, \<^verbatim>\<open>listenRTP\<close> logs the failure and
  returns without receiving or writing anything; the failure is not reported to
  \<^verbatim>\<open>startHandler\<close>, whose response, calls and resulting globals are the same whatever
  the result of binding.
\<close>

theorem bind_failure_stops_only_the_listener:
  "(\<not> listen_udp_ok e port \<longrightarrow> listenRTP unmarshal e port tr evs = ([], Stopped BindFailed))
   \<and> startHandler decode (e\<lparr>listen_udp_ok := f\<rparr>) reqbody s = startHandler decode e reqbody s"
  by (simp add: listenRTP_def start_ignores_bind_result)

theorem bind_failure_stops_only_the_listener_witness:
  "\<not> listen_udp_ok ((sample_env sample_answer)\<lparr>listen_udp_ok := (\<lambda>p. p \<noteq> 5004)\<rparr>) 5004
   \<and> listenRTP sample_unmarshal ((sample_env sample_answer)\<lparr>listen_udp_ok := (\<lambda>p. p \<noteq> 5004)\<rparr>)
        5004 audioTrack [Datagram sample_datagram True] = ([], Stopped BindFailed)
   \<and> startHandler sample_decode ((sample_env sample_answer)\<lparr>listen_udp_ok := (\<lambda>p. p \<noteq> 5004)\<rparr>)
        ''{}'' idle
     = startHandler sample_decode (sample_env sample_answer) ''{}'' idle"
  using bind_failure_stops_only_the_listener
    [of "(sample_env sample_answer)\<lparr>listen_udp_ok := (\<lambda>p. p \<noteq> 5004)\<rparr>" 5004 sample_unmarshal
        audioTrack "[Datagram sample_datagram True]" sample_decode "\<lambda>p. p \<noteq> 5004" "''{}''" idle]
    bind_failure_stops_only_the_listener
    [of "sample_env sample_answer" 5004 sample_unmarshal
        audioTrack "[Datagram sample_datagram True]" sample_decode "\<lambda>p. p \<noteq> 5004" "''{}''" idle]
  by simp




subsection \<open>The two variants of \<^verbatim>\<open>Start\<close>\<close>

text \<open>
  Claim C10, as stated, fails in one point: the relay's \<^verbatim>\<open>Start\<close> cannot fail at
  listener binding. With no port available both listeners return at once, and
  \<^verbatim>\<open>startHandler\<close> answers 200 and sets \<^verbatim>\<open>running\<close>.
\<close>

theorem start_succeeds_without_listeners:
  "listenRTP sample_unmarshal ((sample_env sample_answer)\<lparr>listen_udp_ok := (\<lambda>_. False)\<rparr>)
      (AudioPort sample_request) audioTrack [Datagram sample_datagram True]
     = ([], Stopped BindFailed)
   \<and> listenRTP sample_unmarshal ((sample_env sample_answer)\<lparr>listen_udp_ok := (\<lambda>_. False)\<rparr>)
      (VideoPort sample_request) videoTrack [Datagram sample_datagram True]
     = ([], Stopped BindFailed)
   \<and> fst (startHandler sample_decode
            ((sample_env sample_answer)\<lparr>listen_udp_ok := (\<lambda>_. False)\<rparr>) ''{}'' idle)
     = \<lparr>http_status = 200, http_body = ''Relay started''\<rparr>
   \<and> running (snd (snd (startHandler sample_decode
            ((sample_env sample_answer)\<lparr>listen_udp_ok := (\<lambda>_. False)\<rparr>) ''{}'' idle)))"
  by (simp add: listenRTP_def start_ignores_bind_result accepted_start)

text \<open>
  Claim C10, amended. The two \<^verbatim>\<open>Start\<close> operations are not equivalent. In
  \<^verbatim>\<open>server.go\<close>, with \<^verbatim>\<open>running\<close> clear and a body that decodes, \<^verbatim>\<open>Start\<close>
  always succeeds and sets \<^verbatim>\<open>running\<close>, and its only call is the log line. In the
  relay a successful \<^verbatim>\<open>Start\<close> has registered both codecs, created the peer
  connection and both tracks, started both listeners and made the WHIP exchange, and
  \<^verbatim>\<open>Start\<close> can fail, leaving \<^verbatim>\<open>running\<close> clear, at each of: either codec
  registration, the peer connection, either track, the offer, the local description, the
  request, the POST, the status, reading the answer, the remote description. The result
  of binding the listeners' ports does not change what \<^verbatim>\<open>Start\<close> returns.
\<close>

theorem start_variants_differ:
  "(\<not> running t \<and> decode reqbody = Some req \<longrightarrow>
      startHandler_srv decode reqbody t =
        (http_Write ''asdsa'', [Log (starting_relay req)], t\<lparr>running := True\<rparr>))
   \<and> (\<not> running s \<and> decode reqbody = Some req
        \<and> running (snd (snd (startHandler decode e reqbody s))) \<longrightarrow>
        (\<exists>sdp r. create_offer e = Some sdp \<and> http_do e (IngestURL req) sdp = Some r
           \<and> fst (snd (startHandler decode e reqbody s)) =
                construction_calls req @
                  [CreateOffer, SetLocalDescription sdp, NewRequest (IngestURL req) sdp,
                   HttpPost (IngestURL req) sdp, ReadBody, SetRemoteDescription (body_bytes r),
                   Log (starting_relay req), CloseBody]))
   \<and> (\<not> running s \<and> decode reqbody = Some req \<longrightarrow>
        (\<exists>e. fst (startHandler decode e reqbody s) = http_Error ''failed to register audio codec'' 500
            \<and> \<not> running (snd (snd (startHandler decode e reqbody s))))
        \<and> (\<exists>e. fst (startHandler decode e reqbody s) = http_Error ''failed to register video codec'' 500
            \<and> \<not> running (snd (snd (startHandler decode e reqbody s))))
        \<and> (\<exists>e. fst (startHandler decode e reqbody s) = http_Error ''failed to create pc'' 500
            \<and> \<not> running (snd (snd (startHandler decode e reqbody s))))
        \<and> (\<exists>e. fst (startHandler decode e reqbody s) = http_Error ''failed audio track'' 500
            \<and> \<not> running (snd (snd (startHandler decode e reqbody s))))
        \<and> (\<exists>e. fst (startHandler decode e reqbody s) = http_Error ''failed video track'' 500
            \<and> \<not> running (snd (snd (startHandler decode e reqbody s))))
        \<and> (\<exists>e. fst (startHandler decode e reqbody s) = http_Error ''failed to create offer'' 500
            \<and> \<not> running (snd (snd (startHandler decode e reqbody s))))
        \<and> (\<exists>e. fst (startHandler decode e reqbody s) = http_Error ''failed to set local desc'' 500
            \<and> \<not> running (snd (snd (startHandler decode e reqbody s))))
        \<and> (\<exists>e. fst (startHandler decode e reqbody s) = http_Error ''failed to build whip request'' 500
            \<and> \<not> running (snd (snd (startHandler decode e reqbody s))))
        \<and> (\<exists>e. fst (startHandler decode e reqbody s) = http_Error ''whip request failed'' 500
            \<and> \<not> running (snd (snd (startHandler decode e reqbody s))))
        \<and> (\<exists>e. fst (startHandler decode e reqbody s) = http_Error ''whip error 500: ingest rejected'' 500
            \<and> \<not> running (snd (snd (startHandler decode e reqbody s))))
        \<and> (\<exists>e. fst (startHandler decode e reqbody s) = http_Error ''failed to read whip answer'' 500
            \<and> \<not> running (snd (snd (startHandler decode e reqbody s))))
        \<and> (\<exists>e. fst (startHandler decode e reqbody s) = http_Error ''failed to set remote desc'' 500
            \<and> \<not> running (snd (snd (startHandler decode e reqbody s)))))
   \<and> startHandler decode (e\<lparr>listen_udp_ok := f\<rparr>) reqbody s = startHandler decode e reqbody s"
proof (intro conjI impI)
  assume "\<not> running t \<and> decode reqbody = Some req"
  then show "startHandler_srv decode reqbody t =
        (http_Write ''asdsa'', [Log (starting_relay req)], t\<lparr>running := True\<rparr>)"
    by (simp add: startHandler_srv_def)
next
  assume a: "\<not> running s \<and> decode reqbody = Some req
        \<and> running (snd (snd (startHandler decode e reqbody s)))"
  from a successful_start_calls [of decode reqbody req e s]
  obtain sdp r where "create_offer e = Some sdp" "http_do e (IngestURL req) sdp = Some r"
    "startHandler decode e reqbody s =
               (http_Write ''Relay started'',
                construction_calls req @
                  [CreateOffer, SetLocalDescription sdp, NewRequest (IngestURL req) sdp,
                   HttpPost (IngestURL req) sdp, ReadBody, SetRemoteDescription (body_bytes r),
                   Log (starting_relay req), CloseBody],
                s\<lparr>pc := Some \<lparr>pc_tracks = [audioTrack, videoTrack],
                                local_description = Some sdp,
                                remote_description = Some (body_bytes r)\<rparr>,
                  running := True\<rparr>)"
    by blast
  then show "\<exists>sdp r. create_offer e = Some sdp \<and> http_do e (IngestURL req) sdp = Some r
           \<and> fst (snd (startHandler decode e reqbody s)) =
                construction_calls req @
                  [CreateOffer, SetLocalDescription sdp, NewRequest (IngestURL req) sdp,
                   HttpPost (IngestURL req) sdp, ReadBody, SetRemoteDescription (body_bytes r),
                   Log (starting_relay req), CloseBody]"
    by simp
next
  assume "\<not> running s \<and> decode reqbody = Some req"
  then show "\<exists>e. fst (startHandler decode e reqbody s) = http_Error ''failed to register audio codec'' 500
            \<and> \<not> running (snd (snd (startHandler decode e reqbody s)))"
    using start_fails_1 [of s decode reqbody req] by simp
next
  assume "\<not> running s \<and> decode reqbody = Some req"
  then show "\<exists>e. fst (startHandler decode e reqbody s) = http_Error ''failed to register video codec'' 500
            \<and> \<not> running (snd (snd (startHandler decode e reqbody s)))"
    using start_fails_2 [of s decode reqbody req] by simp
next
  assume "\<not> running s \<and> decode reqbody = Some req"
  then show "\<exists>e. fst (startHandler decode e reqbody s) = http_Error ''failed to create pc'' 500
            \<and> \<not> running (snd (snd (startHandler decode e reqbody s)))"
    using start_fails_3 [of s decode reqbody req] by simp
next
  assume "\<not> running s \<and> decode reqbody = Some req"
  then show "\<exists>e. fst (startHandler decode e reqbody s) = http_Error ''failed audio track'' 500
            \<and> \<not> running (snd (snd (startHandler decode e reqbody s)))"
    using start_fails_4 [of s decode reqbody req] by simp
next
  assume "\<not> running s \<and> decode reqbody = Some req"
  then show "\<exists>e. fst (startHandler decode e reqbody s) = http_Error ''failed video track'' 500
            \<and> \<not> running (snd (snd (startHandler decode e reqbody s)))"
    using start_fails_5 [of s decode reqbody req] by simp
next
  assume "\<not> running s \<and> decode reqbody = Some req"
  then show "\<exists>e. fst (startHandler decode e reqbody s) = http_Error ''failed to create offer'' 500
            \<and> \<not> running (snd (snd (startHandler decode e reqbody s)))"
    using start_fails_6 [of s decode reqbody req] by simp
next
  assume "\<not> running s \<and> decode reqbody = Some req"
  then show "\<exists>e. fst (startHandler decode e reqbody s) = http_Error ''failed to set local desc'' 500
            \<and> \<not> running (snd (snd (startHandler decode e reqbody s)))"
    using start_fails_7 [of s decode reqbody req] by simp
next
  assume "\<not> running s \<and> decode reqbody = Some req"
  then show "\<exists>e. fst (startHandler decode e reqbody s) = http_Error ''failed to build whip request'' 500
            \<and> \<not> running (snd (snd (startHandler decode e reqbody s)))"
    using start_fails_8 [of s decode reqbody req] by simp
next
  assume "\<not> running s \<and> decode reqbody = Some req"
  then show "\<exists>e. fst (startHandler decode e reqbody s) = http_Error ''whip request failed'' 500
            \<and> \<not> running (snd (snd (startHandler decode e reqbody s)))"
    using start_fails_9 [of s decode reqbody req] by simp
next
  assume "\<not> running s \<and> decode reqbody = Some req"
  then show "\<exists>e. fst (startHandler decode e reqbody s) = http_Error ''whip error 500: ingest rejected'' 500
            \<and> \<not> running (snd (snd (startHandler decode e reqbody s)))"
    using start_fails_10 [of s decode reqbody req] by simp
next
  assume "\<not> running s \<and> decode reqbody = Some req"
  then show "\<exists>e. fst (startHandler decode e reqbody s) = http_Error ''failed to read whip answer'' 500
            \<and> \<not> running (snd (snd (startHandler decode e reqbody s)))"
    using start_fails_11 [of s decode reqbody req] by simp
next
  assume "\<not> running s \<and> decode reqbody = Some req"
  then show "\<exists>e. fst (startHandler decode e reqbody s) = http_Error ''failed to set remote desc'' 500
            \<and> \<not> running (snd (snd (startHandler decode e reqbody s)))"
    using start_fails_12 [of s decode reqbody req] by simp
next
  show "startHandler decode (e\<lparr>listen_udp_ok := f\<rparr>) reqbody s = startHandler decode e reqbody s"
    by (rule start_ignores_bind_result)
qed

theorem start_variants_differ_witness:
  "startHandler_srv sample_decode ''{}'' idle =
     (http_Write ''asdsa'', [Log (starting_relay sample_request)], idle\<lparr>running := True\<rparr>)
   \<and> fst (snd (startHandler sample_decode (sample_env sample_answer) ''{}'' idle)) =
       construction_calls sample_request @
         [CreateOffer, SetLocalDescription ''offer'', NewRequest ''http://ingest/whip'' ''offer'',
          HttpPost ''http://ingest/whip'' ''offer'', ReadBody, SetRemoteDescription ''v=0'',
          Log (starting_relay sample_request), CloseBody]"
proof -
  have i: "\<not> running idle" by (simp add: idle_def)
  have d: "sample_decode ''{}'' = Some sample_request" by (simp add: sample_decode_def)
  have r: "running (snd (snd (startHandler sample_decode (sample_env sample_answer) ''{}'' idle)))"
    by (simp add: accepted_start)
  show ?thesis
    using start_variants_differ
      [where t = idle and s = idle and decode = sample_decode and reqbody = "''{}''"
         and req = sample_request and e = "sample_env sample_answer"] i d r
    by (simp add: accepted_start)
qed


subsection \<open>The interleaving: invariants\<close>

lemma past_check_in_transition: "past_check p \<Longrightarrow> in_transition p"
  by (cases p) simp_all

lemma lock_inv_step_at:
  assumes "lock_inv c"
  shows "lock_inv (step_at (threads c i) i c)"
proof -
  from assms have a: "in_transition (threads c i) \<longleftrightarrow> mu c = Some i"
    and b: "threads c (nthreads c) = Done"
    by (simp_all add: lock_inv_def)
  from assms have "in_transition (threads c (nthreads c)) \<longleftrightarrow> mu c = Some (nthreads c)"
    unfolding lock_inv_def by blast
  with b have d: "mu c \<noteq> Some (nthreads c)"
    by simp
  show ?thesis
    using assms a b d
    by (cases "threads c i") (auto simp: lock_inv_def goto_def emit_def)
qed

lemma flag_inv_step_at:
  assumes "lock_inv c" and "flag_inv c"
  shows "flag_inv (step_at (threads c i) i c)"
proof -
  from assms have a: "in_transition (threads c i) \<longleftrightarrow> mu c = Some i"
    and b: "past_check (threads c i) \<longrightarrow> \<not> running c"
    and e: "\<And>j. in_transition (threads c i) \<Longrightarrow> past_check (threads c j) \<Longrightarrow> j = i"
    by (auto simp: lock_inv_def flag_inv_def dest: past_check_in_transition)
  show ?thesis
    using assms(2) a b e
    by (cases "threads c i") (auto simp: flag_inv_def goto_def emit_def)
qed

lemma ack_inv_step_at:
  assumes "lock_inv c" and "ack_inv c" and "i < nthreads c"
  shows "ack_inv (step_at (threads c i) i c)"
proof -
  from assms have a: "threads c i = Shutdown_go \<longrightarrow> Responded i shutdown_ack \<in> set (trace c)"
    and b: "exit_thread (threads c i) \<longrightarrow> acknowledged i (trace c)"
    and e: "flag_cleared (threads c i) \<longrightarrow> Cleared_by_shutdown i \<in> set (trace c)"
    and d: "threads c (nthreads c) = Done"
    by (simp_all add: lock_inv_def ack_inv_def)
  show ?thesis
    using assms(2,3) a b d e
    by (cases "threads c i") (auto simp: ack_inv_def goto_def emit_def)
qed

lemma lock_inv_init: "lock_inv init"
  by (simp add: lock_inv_def init_def)

lemma flag_inv_init: "flag_inv init"
  by (simp add: flag_inv_def init_def)

lemma ack_inv_init: "ack_inv init"
  by (simp add: ack_inv_def init_def)

lemma invs_exec:
  assumes "lock_inv c" and "flag_inv c" and "ack_inv c"
  shows "lock_inv (exec a c) \<and> flag_inv (exec a c) \<and> ack_inv (exec a c)"
proof (cases a)
  case (Arrive r)
  from assms(1) have f: "threads c (nthreads c) = Done"
    by (simp add: lock_inv_def)
  from assms(1) have "in_transition (threads c (nthreads c)) \<longleftrightarrow> mu c = Some (nthreads c)"
    unfolding lock_inv_def by blast
  with f have m: "mu c \<noteq> Some (nthreads c)"
    by simp
  have l: "lock_inv (exec a c)"
    using assms(1) f m Arrive by (cases r) (auto simp: lock_inv_def)
  have g: "flag_inv (exec a c)"
    using assms(2) f Arrive by (cases r) (auto simp: flag_inv_def)
  have k: "ack_inv (exec a c)"
    using assms(3) f Arrive by (cases r) (auto simp: ack_inv_def)
  from l g k show ?thesis by simp
next
  case (Run i)
  show ?thesis
  proof (cases "exit_code c \<noteq> None \<or> nthreads c \<le> i")
    case True
    with assms Run show ?thesis by (simp add: step_def)
  next
    case False
    then have s: "exec a c = step_at (threads c i) i c" and n: "i < nthreads c"
      using Run by (simp_all add: step_def)
    show ?thesis
      unfolding s
      using assms n lock_inv_step_at flag_inv_step_at ack_inv_step_at by simp
  qed
qed

lemma invs_run:
  "lock_inv c \<Longrightarrow> flag_inv c \<Longrightarrow> ack_inv c \<Longrightarrow>
   lock_inv (run sched c) \<and> flag_inv (run sched c) \<and> ack_inv (run sched c)"
proof (induction sched arbitrary: c)
  case Nil
  then show ?case by (simp add: run_def)
next
  case (Cons a sched)
  from Cons.prems invs_exec [of c a]
  have "lock_inv (exec a c) \<and> flag_inv (exec a c) \<and> ack_inv (exec a c)"
    by simp
  with Cons.IH [of "exec a c"] show ?case
    by (simp add: run_def)
qed

lemma invs_reachable:
  "lock_inv (run sched init) \<and> flag_inv (run sched init) \<and> ack_inv (run sched init)"
  using invs_run [OF lock_inv_init flag_inv_init ack_inv_init] .








lemma start_outcome_fixed:
  assumes "\<not> running s"
  shows "fst (startHandler decode e reqbody s) = fst (startHandler decode e reqbody idle)"
    and "running (snd (snd (startHandler decode e reqbody s)))
           = running (snd (snd (startHandler decode e reqbody idle)))"
  using assms
  by (simp_all add: startHandler_def idle_def Let_def split: option.split)

lemma start_srv_outcome_fixed:
  assumes "\<not> running s"
  shows "fst (startHandler_srv decode reqbody s) = fst (startHandler_srv decode reqbody idle)"
    and "running (snd (snd (startHandler_srv decode reqbody s)))
           = running (snd (snd (startHandler_srv decode reqbody idle)))"
  using assms
  by (simp_all add: startHandler_srv_def idle_def split: option.split)

lemma relay_start_sample:
  "relay_start sample_decode (sample_env sample_answer) ''{}'' =
     POST_start \<lparr>http_status = 200, http_body = ''Relay started''\<rparr> True"
  by (simp add: relay_start_def accepted_start)

lemma two_starts_mid:
  "threads (run (take 7 two_starts) init) 0
     = Start_set \<lparr>http_status = 200, http_body = ''Relay started''\<rparr>
   \<and> threads (run (take 7 two_starts) init) 1
     = Start_lock \<lparr>http_status = 200, http_body = ''Relay started''\<rparr> True
   \<and> mu (run (take 7 two_starts) init) = Some 0
   \<and> \<not> running (run (take 7 two_starts) init)"
  by (simp add: two_starts_def run_def relay_start_sample init_def step_def goto_def emit_def)

lemma two_starts_end:
  "running (run two_starts init) \<and> mu (run two_starts init) = None
   \<and> trace (run two_starts init) =
       [Responded 1 (http_Error ''already running'' 409),
        Responded 0 \<lparr>http_status = 200, http_body = ''Relay started''\<rparr>,
        Set_running 0]
   \<and> threads (run two_starts init) 0 = Handler_return
   \<and> threads (run two_starts init) 1 = Handler_return"
  by (simp add: two_starts_def run_def relay_start_sample init_def step_def goto_def emit_def)

lemma srv_start_sample:
  "srv_start sample_decode ''{}'' =
     POST_start \<lparr>http_status = 200, http_body = ''asdsa''\<rparr> True"
  by (simp add: srv_start_def startHandler_srv_def sample_decode_def idle_def http_Write_def)

lemma start_then_stop_end:
  "\<not> running (run start_then_stop init)
   \<and> trace (run start_then_stop init) =
       [Responded 1 \<lparr>http_status = 200, http_body = ''Relay stopped''\<rparr>, Cleared_by_stop 1,
        Responded 0 \<lparr>http_status = 200, http_body = ''asdsa''\<rparr>, Set_running 0]"
  by (simp add: start_then_stop_def run_def srv_start_sample init_def step_def goto_def emit_def
        http_Write_def)



subsection \<open>One session at a time\<close>

text \<open>
  Claim C1. After every schedule of arriving \<^verbatim>\<open>Start\<close>, \<^verbatim>\<open>Stop\<close> and
  \<^verbatim>\<open>Shutdown\<close> requests and of steps of their goroutines: at most one thread is
  inside a lifecycle transition (between its \<^verbatim>\<open>mu.Lock()\<close> and its
  \<^verbatim>\<open>mu.Unlock()\<close>), and it is the thread that locked the mutex; a thread about to
  assign to \<^verbatim>\<open>running\<close> holds the mutex; a
  thread about to execute \<^verbatim>\<open>running = true\<close> finds the flag clear, so no session
  becomes Running while one is Running; and at most one session is Running, the flag
  being set exactly when there is one.
\<close>

theorem at_most_one_running_session:
  "(\<forall>i j. in_transition (threads (run sched init) i)
            \<and> in_transition (threads (run sched init) j) \<longrightarrow> i = j)
   \<and> (\<forall>i. in_transition (threads (run sched init) i) \<longrightarrow> mu (run sched init) = Some i)
   \<and> (\<forall>i. writes_running (threads (run sched init) i) \<longrightarrow> mu (run sched init) = Some i)
   \<and> (\<forall>i r. threads (run sched init) i = Start_set r \<longrightarrow> \<not> running (run sched init))
   \<and> length (sessions (trace (run sched init))) \<le> 1
   \<and> (running (run sched init) \<longleftrightarrow> sessions (trace (run sched init)) \<noteq> [])"
proof -
  let ?c = "run sched init"
  from invs_reachable [of sched] have l: "lock_inv ?c" and f: "flag_inv ?c"
    by simp_all
  from l have h: "\<And>i. in_transition (threads ?c i) \<Longrightarrow> mu ?c = Some i"
    by (simp add: lock_inv_def)
  have w: "\<And>p. writes_running p \<Longrightarrow> in_transition p"
  proof -
    fix p show "writes_running p \<Longrightarrow> in_transition p" by (cases p) simp_all
  qed
  have a: "\<forall>i j. in_transition (threads ?c i) \<and> in_transition (threads ?c j) \<longrightarrow> i = j"
  proof (intro allI impI)
    fix i j
    assume "in_transition (threads ?c i) \<and> in_transition (threads ?c j)"
    then have "mu ?c = Some i" and "mu ?c = Some j"
      using h by simp_all
    then show "i = j" by simp
  qed
  have b: "\<forall>i. writes_running (threads ?c i) \<longrightarrow> mu ?c = Some i"
    using h w by blast
  have d: "\<forall>i r. threads ?c i = Start_set r \<longrightarrow> \<not> running ?c"
  proof (intro allI impI)
    fix i r
    assume "threads ?c i = Start_set r"
    then have "past_check (threads ?c i)" by simp
    with f show "\<not> running ?c" unfolding flag_inv_def by blast
  qed
  from f have e: "length (sessions (trace ?c)) \<le> 1"
    and g: "running ?c \<longleftrightarrow> sessions (trace ?c) \<noteq> []"
    by (simp_all add: flag_inv_def)
  from h have h': "\<forall>i. in_transition (threads ?c i) \<longrightarrow> mu ?c = Some i"
    by blast
  from a h' b d e g show ?thesis by blast
qed

theorem at_most_one_running_session_witness:
  "writes_running (threads (run (take 7 two_starts) init) 0)
   \<and> mu (run (take 7 two_starts) init) = Some 0
   \<and> \<not> running (run (take 7 two_starts) init)
   \<and> threads (run (take 7 two_starts) init) 1
       = Start_lock \<lparr>http_status = 200, http_body = ''Relay started''\<rparr> True
   \<and> running (run two_starts init)
   \<and> sessions (trace (run two_starts init)) = [0]
   \<and> trace (run two_starts init) =
       [Responded 1 (http_Error ''already running'' 409),
        Responded 0 \<lparr>http_status = 200, http_body = ''Relay started''\<rparr>,
        Set_running 0]
   \<and> \<not> running (run start_then_stop init)
   \<and> sessions (trace (run start_then_stop init)) = []"
  using at_most_one_running_session [of "take 7 two_starts"]
    at_most_one_running_session [of two_starts]
    at_most_one_running_session [of start_then_stop]
    two_starts_mid two_starts_end start_then_stop_end
  by simp

subsection \<open>Shutdown\<close>











end
